theory Spec2Isabelle
  imports Complex_Main "HOL-Library.Log_Nat"
begin

section \<open>Python values, errors and the operations the two modules use\<close>

text \<open>
  Both modules work on the decoded JSON answer of the weather provider. A decoded value
  is \<open>None\<close>, a number, a string, a list or a dict with string keys. Numbers are exact
  rationals here: every Python float is a rational, and the arithmetic of the model is
  the exact one; the rounding error of double arithmetic is followed only for the
  temperature fields, in a section of its own. JSON
  \<open>true\<close> and \<open>false\<close> are the numbers 1 and 0 (Python's \<open>bool\<close> is a subclass of
  \<open>int\<close>: it is equal to them, hashes like them and is averaged and rounded like them).
  A dict is the list of its items; a lookup takes the first binding of a key.
\<close>

datatype json =
    JNull
  | JNum rat
  | JStr string
  | JArr "json list"
  | JObj "(string \<times> json) list"

text \<open>The exceptions that the modelled statements can raise.\<close>

datatype pyerr =
    KeyError string
  | IndexError
  | TypeError
  | AttributeError
  | ValueError
  | OverflowError

definition and_then :: "pyerr + 'a \<Rightarrow> ('a \<Rightarrow> pyerr + 'b) \<Rightarrow> pyerr + 'b" where
  "and_then m f = (case m of Inl e \<Rightarrow> Inl e | Inr x \<Rightarrow> f x)"

text \<open>\<open>not v\<close>: the values Python takes as false.\<close>

fun falsy :: "json \<Rightarrow> bool" where
  "falsy JNull = True"
| "falsy (JNum r) = (r = 0)"
| "falsy (JStr s) = (s = [])"
| "falsy (JArr xs) = (xs = [])"
| "falsy (JObj kvs) = (kvs = [])"

text \<open>
  \<open>v[k]\<close> for a string key \<open>k\<close>: a dict raises KeyError on a missing key; a list and a
  string take integer indices only and \<open>None\<close> and numbers are not subscriptable, which
  are all TypeError.
\<close>

fun getitem :: "json \<Rightarrow> string \<Rightarrow> pyerr + json" where
  "getitem (JObj kvs) k = (case map_of kvs k of None \<Rightarrow> Inl (KeyError k) | Some v \<Rightarrow> Inr v)"
| "getitem v k = Inl TypeError"

text \<open>
  \<open>v[0]\<close>: the first element of a list or the first character of a string (IndexError when
  empty); on a dict the integer 0 is looked up as a key, which a decoded JSON object never
  has; \<open>None\<close> and numbers are not subscriptable.
\<close>

fun getitem0 :: "json \<Rightarrow> pyerr + json" where
  "getitem0 (JArr []) = Inl IndexError"
| "getitem0 (JArr (x # xs)) = Inr x"
| "getitem0 (JStr []) = Inl IndexError"
| "getitem0 (JStr (c # cs)) = Inr (JStr [c])"
| "getitem0 (JObj kvs) = Inl (KeyError ''0'')"
| "getitem0 v = Inl TypeError"

text \<open>\<open>v.get(k, default)\<close>: only a dict has the method.\<close>

fun dict_get :: "json \<Rightarrow> string \<Rightarrow> json \<Rightarrow> pyerr + json" where
  "dict_get (JObj kvs) k d = (case map_of kvs k of None \<Rightarrow> Inr d | Some v \<Rightarrow> Inr v)"
| "dict_get v k d = Inl AttributeError"

text \<open>\<open>needle in s\<close> on strings is the substring test.\<close>

fun starts_with :: "string \<Rightarrow> string \<Rightarrow> bool" where
  "starts_with [] s = True"
| "starts_with (c # cs) [] = False"
| "starts_with (c # cs) (d # ds) = (c = d \<and> starts_with cs ds)"

fun substring_of :: "string \<Rightarrow> string \<Rightarrow> bool" where
  "substring_of n [] = (n = [])"
| "substring_of n (d # ds) = (starts_with n (d # ds) \<or> substring_of n ds)"

text \<open>
  \<open>k in v\<close> for a string \<open>k\<close>: key membership on a dict, element membership on a list,
  substring on a string; \<open>None\<close> and numbers are not iterable.
\<close>

fun contains :: "json \<Rightarrow> string \<Rightarrow> pyerr + bool" where
  "contains (JObj kvs) k = Inr (k \<in> set (map fst kvs))"
| "contains (JArr xs) k = Inr (JStr k \<in> set xs)"
| "contains (JStr s) k = Inr (substring_of k s)"
| "contains v k = Inl TypeError"

text \<open>
  \<open>for item in v\<close>: the elements of a list, the keys of a dict, the characters of a
  string; \<open>None\<close> and numbers are not iterable.
\<close>

fun iterate :: "json \<Rightarrow> pyerr + json list" where
  "iterate (JArr xs) = Inr xs"
| "iterate (JObj kvs) = Inr (map (\<lambda>kv. JStr (fst kv)) kvs)"
| "iterate (JStr s) = Inr (map (\<lambda>c. JStr [c]) s)"
| "iterate v = Inl TypeError"

subsection \<open>Rounding and truncation\<close>

text \<open>
  \<open>round(x, n)\<close> rounds to \<open>n\<close> decimals, a tie going to the even neighbour (the builtin on
  a float and NumPy's on a \<open>float64\<close> agree on that under exact arithmetic); \<open>int(x)\<close>
  drops the fraction, towards zero.
\<close>

definition round_half_even :: "rat \<Rightarrow> int" where
  "round_half_even x =
     (let f = \<lfloor>x\<rfloor>; d = x - of_int f
      in if d < 1 / 2 then f else if 1 / 2 < d then f + 1 else if even f then f else f + 1)"

definition py_round :: "rat \<Rightarrow> nat \<Rightarrow> rat" where
  "py_round x n = of_int (round_half_even (x * 10 ^ n)) / 10 ^ n"

definition py_int :: "rat \<Rightarrow> int" where
  "py_int x = (if 0 \<le> x then \<lfloor>x\<rfloor> else \<lceil>x\<rceil>)"

text \<open>\<open>round(v, n)\<close> on a decoded value: only a number can be rounded.\<close>

fun round_value :: "json \<Rightarrow> nat \<Rightarrow> pyerr + rat" where
  "round_value (JNum r) n = Inr (py_round r n)"
| "round_value v n = Inl TypeError"

subsection \<open>Lists of readings: mean, minimum, maximum, mode\<close>

fun number_of :: "json \<Rightarrow> rat option" where
  "number_of (JNum r) = Some r"
| "number_of v = None"

fun numbers_of :: "json list \<Rightarrow> rat list option" where
  "numbers_of [] = Some []"
| "numbers_of (v # vs) =
     (case number_of v of None \<Rightarrow> None
      | Some r \<Rightarrow> (case numbers_of vs of None \<Rightarrow> None | Some rs \<Rightarrow> Some (r # rs)))"

text \<open>
  \<open>np.mean(vs)\<close> of a Python list: the sum over the length when every entry is a number.
  NumPy raises on a list that holds a string, \<open>None\<close> or a dict. (It averages a list of
  equally long lists as a matrix; the model does not follow that and fails there as
  well.) The mean of the empty list is \<open>nan\<close> in NumPy; no bucket is empty, and the model
  fails there.
\<close>

definition np_mean :: "json list \<Rightarrow> pyerr + rat" where
  "np_mean vs =
     (case numbers_of vs of
        None \<Rightarrow> Inl TypeError
      | Some rs \<Rightarrow> if rs = [] then Inl ValueError else Inr (sum_list rs / of_nat (length rs)))"

text \<open>
  \<open>round(min(vs), 1)\<close> and \<open>round(max(vs), 1)\<close>: on numbers the smallest and the largest,
  rounded. When an entry is not a number either the comparison or the rounding raises
  TypeError; \<open>min\<close> and \<open>max\<close> of the empty list raise ValueError.
\<close>

definition round_min :: "json list \<Rightarrow> nat \<Rightarrow> pyerr + rat" where
  "round_min vs n =
     (case numbers_of vs of
        None \<Rightarrow> Inl TypeError
      | Some [] \<Rightarrow> Inl ValueError
      | Some (r # rs) \<Rightarrow> Inr (py_round (fold min rs r) n))"

definition round_max :: "json list \<Rightarrow> nat \<Rightarrow> pyerr + rat" where
  "round_max vs n =
     (case numbers_of vs of
        None \<Rightarrow> Inl TypeError
      | Some [] \<Rightarrow> Inl ValueError
      | Some (r # rs) \<Rightarrow> Inr (py_round (fold max rs r) n))"

text \<open>
  \<open>max(it, key=k)\<close> keeps the first element of the iteration whose key is largest: a
  later element replaces the current one only when its key is strictly greater.
\<close>

fun max_by :: "('a \<Rightarrow> nat) \<Rightarrow> 'a \<Rightarrow> 'a list \<Rightarrow> 'a" where
  "max_by k best [] = best"
| "max_by k best (x # xs) = max_by k (if k best < k x then x else best) xs"

definition py_max_key :: "('a \<Rightarrow> nat) \<Rightarrow> 'a list \<Rightarrow> pyerr + 'a" where
  "py_max_key k it = (case it of [] \<Rightarrow> Inl ValueError | x # xs \<Rightarrow> Inr (max_by k x xs))"

fun hashable :: "json \<Rightarrow> bool" where
  "hashable (JArr xs) = False"
| "hashable (JObj kvs) = False"
| "hashable v = True"

text \<open>
  \<open>set(vs)\<close> raises TypeError on a list or a dict among \<open>vs\<close>. The order in which a set is
  iterated is decided by the hashes of its elements (for strings they change from one
  process to the next), not by the order of insertion: it is a parameter \<open>order\<close> of the
  model, of which every use assumes only that it lists the distinct elements of \<open>vs\<close>.
\<close>

definition set_iteration :: "(json list \<Rightarrow> json list) \<Rightarrow> json list \<Rightarrow> pyerr + json list" where
  "set_iteration order vs = (if list_all hashable vs then Inr (order vs) else Inl TypeError)"

definition lists_the_set :: "(json list \<Rightarrow> json list) \<Rightarrow> json list \<Rightarrow> bool" where
  "lists_the_set order vs = (distinct (order vs) \<and> set (order vs) = set vs)"

text \<open>\<open>max(set(vs), key=vs.count)\<close>.\<close>

definition most_common :: "(json list \<Rightarrow> json list) \<Rightarrow> json list \<Rightarrow> pyerr + json" where
  "most_common order vs = and_then (set_iteration order vs) (py_max_key (count_list vs))"

section \<open>The forecast service (\<open>app.py\<close>)\<close>

subsection \<open>What the aggregation reads from outside\<close>

text \<open>
  \<open>process_forecast_data\<close> reads the clock and the time zone, fits the rain classifier and
  iterates a set. These are the parameters of the model:
  \<^item> \<open>local_date\<close>: \<open>datetime.fromtimestamp(t).date()\<close>, the local calendar day of a POSIX
    time as a day number (day 0 is 1970-01-01), or the exception raised for a time out of
    range;
  \<^item> \<open>today\<close>: \<open>datetime.now().date()\<close> as a day number;
  \<^item> \<open>rain_model\<close>: the fitted classifier returned by \<open>train_rain_prediction_model()\<close>,
    given by the class-1 probability \<open>predict_proba(...)[0][1]\<close> it assigns to a feature
    vector (humidity, cloud cover, pressure, wind speed). The fit itself, scikit-learn's
    iterative solver on the ten fixed rows, is not modelled;
  \<^item> \<open>set_order\<close>: the iteration order of \<open>set(...)\<close>.
  A date string \<open>str(date)\<close> is the ISO form of the day, one string per day, so the day
  number stands for it.
\<close>

record env =
  local_date :: "rat \<Rightarrow> pyerr + int"
  today :: int
  rain_model :: "rat \<Rightarrow> rat \<Rightarrow> rat \<Rightarrow> rat \<Rightarrow> rat"
  set_order :: "json list \<Rightarrow> json list"

text \<open>\<open>datetime.fromtimestamp(v).date()\<close>: the argument has to be a number.\<close>

fun fromtimestamp_date :: "env \<Rightarrow> json \<Rightarrow> pyerr + int" where
  "fromtimestamp_date E (JNum t) = local_date E t"
| "fromtimestamp_date E v = Inl TypeError"

text \<open>\<open>strftime("%A")\<close>: day 0 was a Thursday.\<close>

definition weekday_name :: "int \<Rightarrow> string" where
  "weekday_name d =
     [''Monday'', ''Tuesday'', ''Wednesday'', ''Thursday'', ''Friday'', ''Saturday'', ''Sunday'']
       ! nat ((d + 3) mod 7)"

subsection \<open>The rain classifier\<close>

text \<open>
  \<open>predict_rain_probability\<close>: the class-1 probability times 100, rounded to one decimal.
\<close>

definition predict_rain_probability ::
  "(rat \<Rightarrow> rat \<Rightarrow> rat \<Rightarrow> rat \<Rightarrow> rat) \<Rightarrow> rat \<Rightarrow> rat \<Rightarrow> rat \<Rightarrow> rat \<Rightarrow> rat" where
  "predict_rain_probability model humidity cloudiness pressure wind_speed_in =
     (let probability = model humidity cloudiness pressure wind_speed_in * 100
      in py_round probability 1)"

subsection \<open>Grouping the readings by date\<close>

text \<open>
  What the loop body reads from one entry of \<open>forecast_data["list"]\<close>, in the order of the
  source: the date of \<open>item["dt"]\<close>, then the seven values it appends. The first
  subscript that fails raises, and nothing catches it inside \<open>process_forecast_data\<close>.
\<close>

record reading =
  r_date :: int
  r_temp :: json
  r_humidity :: json
  r_clouds :: json
  r_pressure :: json
  r_wind :: json
  r_description :: json
  r_icon :: json

definition read_item :: "env \<Rightarrow> json \<Rightarrow> pyerr + reading" where
  "read_item E item =
     and_then (getitem item ''dt'') (\<lambda>dt.
     and_then (fromtimestamp_date E dt) (\<lambda>d.
     and_then (and_then (getitem item ''main'') (\<lambda>m. getitem m ''temp'')) (\<lambda>temp.
     and_then (and_then (getitem item ''main'') (\<lambda>m. getitem m ''humidity'')) (\<lambda>hum.
     and_then (and_then (getitem item ''clouds'') (\<lambda>c. getitem c ''all'')) (\<lambda>clouds.
     and_then (and_then (getitem item ''main'') (\<lambda>m. getitem m ''pressure'')) (\<lambda>pres.
     and_then (and_then (getitem item ''wind'') (\<lambda>w. getitem w ''speed'')) (\<lambda>wind.
     and_then (and_then (and_then (getitem item ''weather'') getitem0) (\<lambda>w. getitem w ''main''))
       (\<lambda>desc.
     and_then (and_then (and_then (getitem item ''weather'') getitem0) (\<lambda>w. getitem w ''icon''))
       (\<lambda>ic.
     Inr \<lparr>r_date = d, r_temp = temp, r_humidity = hum, r_clouds = clouds, r_pressure = pres,
          r_wind = wind, r_description = desc, r_icon = ic\<rparr>)))))))))"

text \<open>One entry of \<open>daily_forecasts\<close>: the lists of a date, in reading order.\<close>

record bucket =
  b_date :: int
  temps :: "json list"
  humidities :: "json list"
  b_cloud_cover :: "json list"
  pressures :: "json list"
  wind_speeds :: "json list"
  descriptions :: "json list"
  icons :: "json list"

definition new_bucket :: "int \<Rightarrow> bucket" where
  "new_bucket d = \<lparr>b_date = d, temps = [], humidities = [], b_cloud_cover = [], pressures = [],
     wind_speeds = [], descriptions = [], icons = []\<rparr>"

definition append_reading :: "(int \<rightharpoonup> bucket) \<Rightarrow> reading \<Rightarrow> (int \<rightharpoonup> bucket)" where
  "append_reading daily_forecasts r =
     (let b = (case daily_forecasts (r_date r) of None \<Rightarrow> new_bucket (r_date r) | Some b \<Rightarrow> b)
      in daily_forecasts(r_date r \<mapsto>
           b\<lparr>temps := temps b @ [r_temp r],
             humidities := humidities b @ [r_humidity r],
             b_cloud_cover := b_cloud_cover b @ [r_clouds r],
             pressures := pressures b @ [r_pressure r],
             wind_speeds := wind_speeds b @ [r_wind r],
             descriptions := descriptions b @ [r_description r],
             icons := icons b @ [r_icon r]\<rparr>))"

fun group_by_date :: "env \<Rightarrow> (int \<rightharpoonup> bucket) \<Rightarrow> json list \<Rightarrow> pyerr + (int \<rightharpoonup> bucket)" where
  "group_by_date E daily_forecasts [] = Inr daily_forecasts"
| "group_by_date E daily_forecasts (item # items) =
     (case read_item E item of
        Inl e \<Rightarrow> Inl e
      | Inr r \<Rightarrow> group_by_date E (append_reading daily_forecasts r) items)"

subsection \<open>The summary of one day\<close>

record daily_summary =
  date :: int
  day :: string
  min_temp :: rat
  max_temp :: rat
  avg_temp :: rat
  humidity :: int
  cloud_cover :: int
  wind_speed :: rat
  condition :: json
  icon :: json
  rain_probability :: rat
  will_rain :: bool

definition summarise :: "env \<Rightarrow> int \<Rightarrow> bucket \<Rightarrow> pyerr + daily_summary" where
  "summarise E target_date data =
     and_then (np_mean (humidities data)) (\<lambda>avg_humidity.
     and_then (np_mean (b_cloud_cover data)) (\<lambda>avg_cloud.
     and_then (np_mean (pressures data)) (\<lambda>avg_pressure.
     and_then (np_mean (wind_speeds data)) (\<lambda>avg_wind.
     let rain_prob = predict_rain_probability (rain_model E)
                       avg_humidity avg_cloud avg_pressure avg_wind in
     and_then (round_min (temps data) 1) (\<lambda>mn.
     and_then (round_max (temps data) 1) (\<lambda>mx.
     and_then (np_mean (temps data)) (\<lambda>avg_t.
     and_then (most_common (set_order E) (descriptions data)) (\<lambda>cond.
     and_then (getitem0 (JArr (icons data))) (\<lambda>ic.
     Inr \<lparr>date = target_date,
          day = weekday_name target_date,
          min_temp = mn,
          max_temp = mx,
          avg_temp = py_round avg_t 1,
          humidity = py_int avg_humidity,
          cloud_cover = py_int avg_cloud,
          wind_speed = py_round avg_wind 1,
          condition = cond,
          icon = ic,
          rain_probability = rain_prob,
          will_rain = (50 < rain_prob)\<rparr>)))))))))"

text \<open>The loop \<open>for i in range(1, 5)\<close>, over the list of its indices.\<close>

fun summaries :: "env \<Rightarrow> (int \<rightharpoonup> bucket) \<Rightarrow> int list \<Rightarrow> pyerr + daily_summary list" where
  "summaries E daily_forecasts [] = Inr []"
| "summaries E daily_forecasts (i # is) =
     (let target_date = today E + i
      in case daily_forecasts target_date of
           None \<Rightarrow> summaries E daily_forecasts is
         | Some data \<Rightarrow>
             and_then (summarise E target_date data) (\<lambda>s.
             and_then (summaries E daily_forecasts is) (\<lambda>rest. Inr (s # rest))))"

definition process_forecast_data :: "env \<Rightarrow> json \<Rightarrow> pyerr + daily_summary list" where
  "process_forecast_data E forecast_data =
     (if falsy forecast_data then Inr []
      else and_then (contains forecast_data ''list'') (\<lambda>has_list.
        if \<not> has_list then Inr []
        else and_then (getitem forecast_data ''list'') (\<lambda>l.
             and_then (iterate l) (\<lambda>items.
             and_then (group_by_date E Map.empty items) (\<lambda>daily_forecasts.
             summaries E daily_forecasts [1, 2, 3, 4])))))"

subsection \<open>The forecast endpoint\<close>

text \<open>
  What a geocoder call returns: \<open>g_ok\<close> is the truth value of the result object, the names
  may be absent, \<open>g_latlng\<close> is the coordinate pair when the provider found one. A call
  that raises is \<open>Inl\<close>.
\<close>

record geo_result =
  g_ok :: bool
  g_city :: "string option"
  g_country :: "string option"
  g_latlng :: "(rat \<times> rat) option"

record location =
  city :: string
  country :: string
  lat :: rat
  lng :: rat

text \<open>\<open>name or default\<close>: an absent or empty name gives the default.\<close>

fun or_default :: "string option \<Rightarrow> string \<Rightarrow> string" where
  "or_default None d = d"
| "or_default (Some s) d = (if s = [] then d else s)"

text \<open>
  The collaborators of the endpoint: the answer of \<open>geocoder.ip("me")\<close>, of
  \<open>geocoder.reverse_geocode(lat, lng)\<close>, the credential read at start-up, and the decoded
  body of the HTTP request of \<open>fetch_forecast\<close> (\<open>Inl\<close> for a transport error, a status
  that is not 2xx or a body that is not JSON).
\<close>

record services =
  geocoder_ip :: "pyerr + geo_result"
  geocoder_reverse :: "rat \<Rightarrow> rat \<Rightarrow> pyerr + geo_result"
  API_KEY :: "string option"
  forecast_response :: "rat \<Rightarrow> rat \<Rightarrow> pyerr + json"

definition get_location_from_ip :: "services \<Rightarrow> location option" where
  "get_location_from_ip S =
     (case geocoder_ip S of
        Inl e \<Rightarrow> None
      | Inr g \<Rightarrow>
          (case g_latlng g of
             None \<Rightarrow> None
           | Some (la, lo) \<Rightarrow>
               if g_ok g
               then Some \<lparr>city = or_default (g_city g) ''Unknown'',
                          country = or_default (g_country g) ''Unknown'',
                          lat = la, lng = lo\<rparr>
               else None))"

definition get_location_from_coordinates :: "services \<Rightarrow> rat \<Rightarrow> rat \<Rightarrow> location option" where
  "get_location_from_coordinates S la lo =
     (case geocoder_reverse S la lo of
        Inl e \<Rightarrow> None
      | Inr g \<Rightarrow>
          if g_ok g
          then Some \<lparr>city = or_default (g_city g) ''Unknown'',
                     country = or_default (g_country g) ''Unknown'',
                     lat = la, lng = lo\<rparr>
          else None)"

text \<open>\<open>not API_KEY\<close>: the variable is unset or empty.\<close>

fun no_key :: "string option \<Rightarrow> bool" where
  "no_key None = True"
| "no_key (Some k) = (k = [])"

definition fetch_forecast :: "services \<Rightarrow> rat \<Rightarrow> rat \<Rightarrow> json option" where
  "fetch_forecast S la lo =
     (if no_key (API_KEY S) then None
      else case forecast_response S la lo of Inl e \<Rightarrow> None | Inr data \<Rightarrow> Some data)"

text \<open>
  The response: the status and the JSON body. The body is an error message, the text of a
  caught exception (with \<open>"success": false\<close>), or the location with the forecast; its
  time stamp is left out.
\<close>

datatype body =
    Error_Message string
  | Caught pyerr
  | Forecast location "daily_summary list"

text \<open>
  \<open>get_forecast\<close>, with the query parameters \<open>lat\<close> and \<open>lng\<close> as \<open>request.args.get\<close> gives
  them: \<open>None\<close> when absent or not a number. With both present the location is whatever
  \<open>get_location_from_coordinates\<close> returns and is not tested; \<open>location["lat"]\<close> on
  \<open>None\<close> then raises TypeError inside the \<open>try\<close>, as does any exception of
  \<open>process_forecast_data\<close>, and the handler answers 500.
\<close>

definition find_location ::
  "services \<Rightarrow> rat option \<Rightarrow> rat option \<Rightarrow> (nat \<times> body) + location option" where
  "find_location S qlat qlng =
     (case (qlat, qlng) of
        (Some la, Some lo) \<Rightarrow> Inr (get_location_from_coordinates S la lo)
      | _ \<Rightarrow>
          (case get_location_from_ip S of
             None \<Rightarrow> Inl (400, Error_Message ''Could not detect location'')
           | Some l \<Rightarrow> Inr (Some l)))"

definition get_forecast :: "services \<Rightarrow> env \<Rightarrow> rat option \<Rightarrow> rat option \<Rightarrow> nat \<times> body" where
  "get_forecast S E qlat qlng =
     (case find_location S qlat qlng of
        Inl response \<Rightarrow> response
      | Inr loc \<Rightarrow>
          if no_key (API_KEY S) then (500, Error_Message ''API key not configured'')
          else (case loc of
                  None \<Rightarrow> (500, Caught TypeError)
                | Some l \<Rightarrow>
                    (case fetch_forecast S (lat l) (lng l) of
                       None \<Rightarrow> (500, Error_Message ''Could not fetch forecast'')
                     | Some forecast_data \<Rightarrow>
                         if falsy forecast_data
                         then (500, Error_Message ''Could not fetch forecast'')
                         else (case process_forecast_data E forecast_data of
                                 Inl e \<Rightarrow> (500, Caught e)
                               | Inr forecast \<Rightarrow> (200, Forecast l forecast)))))"

section \<open>The command-line flow (\<open>weather_ai.py\<close>)\<close>

subsection \<open>The feels-like estimator\<close>

definition training_humidity :: "rat list" where
  "training_humidity = [30, 40, 50, 60, 70, 80, 90, 35, 45, 55, 65, 75, 85, 95]"

definition training_temp :: "rat list" where
  "training_temp = [15, 18, 20, 22, 25, 28, 30, 10, 12, 14, 16, 18, 20, 22]"

definition training_feels_like :: "rat list" where
  "training_feels_like =
     map (\<lambda>(t, h). t * (9 / 10) + (h / 100) * 3) (zip training_temp training_humidity)"

text \<open>A fitted \<open>LinearRegression\<close> on the two features (humidity, temperature).\<close>

record linear_model =
  coef_humidity :: rat
  coef_temperature :: rat
  intercept :: rat

definition mean :: "rat list \<Rightarrow> rat" where
  "mean xs = sum_list xs / of_nat (length xs)"

definition centred :: "rat list \<Rightarrow> rat list" where
  "centred xs = map (\<lambda>x. x - mean xs) xs"

definition dot :: "rat list \<Rightarrow> rat list \<Rightarrow> rat" where
  "dot xs ys = sum_list (map (\<lambda>(x, y). x * y) (zip xs ys))"

text \<open>
  \<open>LinearRegression().fit(X, y)\<close> with an intercept: the data are centred, the
  coefficients are the least-squares solution on the centred data and the intercept is
  what makes the fit pass through the means. For two features whose centred columns are
  independent the solution is the one of the normal equations, written out by Cramer's
  rule; the solver's choice on dependent columns (the determinant 0) is not modelled.
\<close>

definition least_squares_fit :: "rat list \<Rightarrow> rat list \<Rightarrow> rat list \<Rightarrow> linear_model option" where
  "least_squares_fit hs ts ys =
     (let h = centred hs; t = centred ts; y = centred ys;
          det = dot h h * dot t t - dot h t * dot h t
      in if det = 0 then None
         else let a = (dot h y * dot t t - dot t y * dot h t) / det;
                  b = (dot t y * dot h h - dot h y * dot h t) / det
              in Some \<lparr>coef_humidity = a, coef_temperature = b,
                       intercept = mean ys - a * mean hs - b * mean ts\<rparr>)"

definition train_prediction_model :: "linear_model option" where
  "train_prediction_model =
     least_squares_fit training_humidity training_temp training_feels_like"

text \<open>
  The sum of the squared residuals of a line on the training data, which the fit
  minimises.
\<close>

definition squared_error :: "rat \<Rightarrow> rat \<Rightarrow> rat \<Rightarrow> rat" where
  "squared_error a b c =
     sum_list (map (\<lambda>(h, t, y). (a * h + b * t + c - y) ^ 2)
       (zip training_humidity (zip training_temp training_feels_like)))"

text \<open>
  \<open>predict_feels_like\<close>: the value of the line at the input, rounded to two decimals.
  scikit-learn rejects an input row that is not numeric.
\<close>

definition predict_feels_like :: "linear_model \<Rightarrow> json \<Rightarrow> json \<Rightarrow> pyerr + rat" where
  "predict_feels_like model humidity_in temperature =
     (case (number_of humidity_in, number_of temperature) of
        (Some h, Some t) \<Rightarrow>
          Inr (py_round (coef_humidity model * h + coef_temperature model * t + intercept model) 2)
      | _ \<Rightarrow> Inl ValueError)"

subsection \<open>Extraction\<close>

text \<open>
  \<open>s.title()\<close> on ASCII: a letter after a letter in lower case, any other letter in upper
  case.
\<close>

definition is_lower :: "char \<Rightarrow> bool" where
  "is_lower c = (97 \<le> (of_char c :: nat) \<and> (of_char c :: nat) \<le> 122)"

definition is_upper :: "char \<Rightarrow> bool" where
  "is_upper c = (65 \<le> (of_char c :: nat) \<and> (of_char c :: nat) \<le> 90)"

definition to_upper :: "char \<Rightarrow> char" where
  "to_upper c = (if is_lower c then char_of ((of_char c :: nat) - 32) else c)"

definition to_lower :: "char \<Rightarrow> char" where
  "to_lower c = (if is_upper c then char_of ((of_char c :: nat) + 32) else c)"

fun title_from :: "bool \<Rightarrow> string \<Rightarrow> string" where
  "title_from previous_is_cased [] = []"
| "title_from previous_is_cased (c # cs) =
     (if previous_is_cased then to_lower c else to_upper c)
       # title_from (is_lower c \<or> is_upper c) cs"

fun title :: "json \<Rightarrow> pyerr + json" where
  "title (JStr s) = Inr (JStr (title_from False s))"
| "title v = Inl AttributeError"

text \<open>
  The body of the \<open>try\<close> of \<open>extract_weather_info\<close>: the entries of the dict display are
  evaluated in their order, and the first one that fails raises. The result dict is the
  list of its items.
\<close>

definition extract_fields :: "json \<Rightarrow> pyerr + (string \<times> json) list" where
  "extract_fields data =
     and_then (dict_get data ''name'' (JStr ''Unknown'')) (\<lambda>city_v.
     and_then (and_then (dict_get data ''sys'' (JObj []))
                 (\<lambda>sys. dict_get sys ''country'' (JStr []))) (\<lambda>country_v.
     and_then (and_then (and_then (getitem data ''main'') (\<lambda>m. getitem m ''temp''))
                 (\<lambda>v. round_value v 2)) (\<lambda>temperature.
     and_then (and_then (getitem data ''main'') (\<lambda>m. getitem m ''humidity'')) (\<lambda>humidity_v.
     and_then (and_then (and_then (getitem data ''wind'') (\<lambda>w. getitem w ''speed''))
                 (\<lambda>v. round_value v 2)) (\<lambda>wind_speed_v.
     and_then (and_then (and_then (getitem data ''main'') (\<lambda>m. getitem m ''feels_like''))
                 (\<lambda>v. round_value v 2)) (\<lambda>feels_like.
     and_then (and_then (and_then (and_then (getitem data ''weather'') getitem0)
                 (\<lambda>w. getitem w ''description'')) title) (\<lambda>description.
     and_then (and_then (getitem data ''main'') (\<lambda>m. getitem m ''pressure'')) (\<lambda>pressure.
     Inr [(''city'', city_v), (''country'', country_v), (''temperature'', JNum temperature),
          (''humidity'', humidity_v), (''wind_speed'', JNum wind_speed_v),
          (''feels_like'', JNum feels_like), (''description'', description),
          (''pressure'', pressure)]))))))))"

text \<open>
  \<open>except KeyError\<close>: a missing key gives the empty dict; any other exception goes on.
\<close>

definition extract_weather_info :: "json \<Rightarrow> pyerr + (string \<times> json) list" where
  "extract_weather_info data =
     (case extract_fields data of
        Inl (KeyError k) \<Rightarrow> Inr []
      | Inl e \<Rightarrow> Inl e
      | Inr weather_info \<Rightarrow> Inr weather_info)"

subsection \<open>Display and the main flow\<close>

text \<open>
  What \<open>display_weather_summary\<close> prints: nothing for an empty dict, else the report, of
  which the difference to the provider's feels-like value and its symbol are kept.
\<close>

datatype shown = Nothing_Shown | Report rat string

definition display_weather_summary ::
  "string \<Rightarrow> (string \<times> json) list \<Rightarrow> rat \<Rightarrow> pyerr + shown" where
  "display_weather_summary loc weather ai_prediction =
     (if weather = [] then Inr Nothing_Shown
      else and_then (getitem (JObj weather) ''city'') (\<lambda>c.
           and_then (getitem (JObj weather) ''country'') (\<lambda>co.
           and_then (getitem (JObj weather) ''temperature'') (\<lambda>t.
           and_then (getitem (JObj weather) ''feels_like'') (\<lambda>f.
           and_then (getitem (JObj weather) ''wind_speed'') (\<lambda>w.
           and_then (getitem (JObj weather) ''humidity'') (\<lambda>h.
           and_then (getitem (JObj weather) ''pressure'') (\<lambda>p.
           and_then (getitem (JObj weather) ''description'') (\<lambda>d.
           case number_of f of
             None \<Rightarrow> Inl TypeError
           | Some fl \<Rightarrow>
               let difference = ai_prediction - fl
               in Inr (Report difference
                    (if 0 < difference then ''[UP]''
                     else if difference < 0 then ''[DOWN]'' else ''[SAME]'')))))))))))"

text \<open>
  The collaborators of the command-line flow: the geocoder's answer, the credential and
  the decoded body of the current-weather request.
\<close>

record cli_services =
  cli_geocoder_ip :: "pyerr + geo_result"
  cli_API_KEY :: "string option"
  weather_response :: "rat \<Rightarrow> rat \<Rightarrow> pyerr + json"

definition get_user_location :: "cli_services \<Rightarrow> (string \<times> rat \<times> rat) option" where
  "get_user_location S =
     (case cli_geocoder_ip S of
        Inl e \<Rightarrow> None
      | Inr g \<Rightarrow>
          (case g_latlng g of
             None \<Rightarrow> None
           | Some (la, lo) \<Rightarrow>
               if g_ok g then Some (or_default (g_city g) ''Unknown City'', la, lo) else None))"

definition fetch_weather_data :: "cli_services \<Rightarrow> rat \<Rightarrow> rat \<Rightarrow> json option" where
  "fetch_weather_data S la lo =
     (if no_key (cli_API_KEY S) then None
      else case weather_response S la lo of Inl e \<Rightarrow> None | Inr data \<Rightarrow> Some data)"

text \<open>
  \<open>main\<close> returns early without a location or without weather data; else it extracts,
  trains, reads \<open>weather_info["humidity"]\<close> and \<open>weather_info["temperature"]\<close>, predicts
  and displays. An exception leaves \<open>main\<close> and reaches the handler at the bottom of the
  script, which prints the fatal error. (The fit of the training data exists, see
  \<open>train_prediction_model_value\<close>; the branch for a missing fit is never taken.)
\<close>

datatype cli_result = No_Location | No_Weather | Displayed shown

definition main :: "cli_services \<Rightarrow> pyerr + cli_result" where
  "main S =
     (case get_user_location S of
        None \<Rightarrow> Inr No_Location
      | Some (city_name, la, lo) \<Rightarrow>
          (case fetch_weather_data S la lo of
             None \<Rightarrow> Inr No_Weather
           | Some weather_raw \<Rightarrow>
               if falsy weather_raw then Inr No_Weather
               else and_then (extract_weather_info weather_raw) (\<lambda>weather_info.
                    case train_prediction_model of
                      None \<Rightarrow> Inl ValueError
                    | Some model \<Rightarrow>
                        and_then (getitem (JObj weather_info) ''humidity'') (\<lambda>h.
                        and_then (getitem (JObj weather_info) ''temperature'') (\<lambda>t.
                        and_then (predict_feels_like model h t) (\<lambda>ai_prediction.
                        and_then (display_weather_summary city_name weather_info ai_prediction)
                          (\<lambda>s. Inr (Displayed s))))))))"



section \<open>The temperature fields in double arithmetic\<close>

text \<open>
  The three temperature fields are the only place where the source rounds the same data
  with two different routines, and there the rounding error of doubles decides the
  result. This section writes lines 251 to 253 of \<open>app.py\<close> once more, on the doubles
  themselves.

  \<open>to_double\<close> is the double nearest to a rational, a tie going to the even mantissa
  (the rounding of every IEEE operation and of the decoding of a decimal literal), for
  values in the normal range: \<open>binary_exponent y\<close> is the \<open>k\<close> with
  \<open>2^k \<le> y < 2^(k+1)\<close>, and the value is rounded to a multiple of \<open>2^(k-52)\<close>.
\<close>

definition binary_exponent :: "rat \<Rightarrow> int" where
  "binary_exponent y =
     (let (p, q) = quotient_of y; k = bitlen p - bitlen q
      in if 2 powi k \<le> y then k else k - 1)"

definition to_double :: "rat \<Rightarrow> rat" where
  "to_double x =
     (if x = 0 then 0
      else let e = binary_exponent \<bar>x\<bar> - 52
           in of_int (round_half_even (x / 2 powi e)) * 2 powi e)"





section \<open>The readings of a payload, for stating the properties\<close>

text \<open>
  The entries that the grouping loop of \<open>process_forecast_data\<close> visits: none when the
  function returns early, else the iteration of \<open>forecast_data["list"]\<close>.
\<close>

definition payload_items :: "json \<Rightarrow> pyerr + json list" where
  "payload_items forecast_data =
     (if falsy forecast_data then Inr []
      else and_then (contains forecast_data ''list'') (\<lambda>has_list.
        if \<not> has_list then Inr [] else and_then (getitem forecast_data ''list'') iterate))"

text \<open>All entries read in order; the first one that fails raises.\<close>

fun read_all :: "env \<Rightarrow> json list \<Rightarrow> pyerr + reading list" where
  "read_all E [] = Inr []"
| "read_all E (item # items) =
     (case read_item E item of
        Inl e \<Rightarrow> Inl e
      | Inr r \<Rightarrow> (case read_all E items of Inl e \<Rightarrow> Inl e | Inr rs \<Rightarrow> Inr (r # rs)))"

text \<open>
  The readings of a payload in reading order (the empty list when reading raises), and
  those of one day.
\<close>

definition readings_of :: "env \<Rightarrow> json \<Rightarrow> reading list" where
  "readings_of E forecast_data =
     (case payload_items forecast_data of
        Inl e \<Rightarrow> []
      | Inr items \<Rightarrow> (case read_all E items of Inl e \<Rightarrow> [] | Inr rs \<Rightarrow> rs))"

definition day_readings :: "env \<Rightarrow> json \<Rightarrow> int \<Rightarrow> reading list" where
  "day_readings E forecast_data d = filter (\<lambda>r. r_date r = d) (readings_of E forecast_data)"

text \<open>The bucket that holds the readings \<open>rs\<close> of the day \<open>d\<close>.\<close>

definition bucket_of :: "int \<Rightarrow> reading list \<Rightarrow> bucket" where
  "bucket_of d rs =
     \<lparr>b_date = d, temps = map r_temp rs, humidities = map r_humidity rs,
      b_cloud_cover = map r_clouds rs, pressures = map r_pressure rs,
      wind_speeds = map r_wind rs, descriptions = map r_description rs,
      icons = map r_icon rs\<rparr>"

text \<open>The values of one field over the readings of a day, in reading order.\<close>

definition day_values :: "env \<Rightarrow> json \<Rightarrow> int \<Rightarrow> (reading \<Rightarrow> json) \<Rightarrow> json list" where
  "day_values E forecast_data d field = map field (day_readings E forecast_data d)"

text \<open>
  A reading whose five measurements are numbers and whose description can be put into a
  set.
\<close>

definition numeric_reading :: "reading \<Rightarrow> bool" where
  "numeric_reading r =
     (number_of (r_temp r) \<noteq> None \<and> number_of (r_humidity r) \<noteq> None
      \<and> number_of (r_clouds r) \<noteq> None \<and> number_of (r_pressure r) \<noteq> None
      \<and> number_of (r_wind r) \<noteq> None \<and> hashable (r_description r))"

subsection \<open>Concrete inputs\<close>

text \<open>
  An environment for evaluation: UTC as the local time zone, day 0 as today, a
  classifier that answers 1/2 for every input, and a set that iterates in the order of
  first insertion. The second one iterates its sets in the opposite order.
\<close>

definition utc_env :: env where
  "utc_env = \<lparr>local_date = (\<lambda>t. Inr \<lfloor>t / 86400\<rfloor>), today = 0,
               rain_model = (\<lambda>h c p w. 1 / 2), set_order = remdups\<rparr>"

definition utc_env_rev :: env where
  "utc_env_rev = utc_env\<lparr>set_order := (\<lambda>vs. rev (remdups vs))\<rparr>"

text \<open>
  One entry of the provider's list: time, temperature, humidity and condition label as
  given, the other fields fixed.
\<close>

definition entry :: "rat \<Rightarrow> rat \<Rightarrow> rat \<Rightarrow> string \<Rightarrow> json" where
  "entry t temp hum label =
     JObj [(''dt'', JNum t),
           (''main'', JObj [(''temp'', JNum temp), (''humidity'', JNum hum),
                            (''pressure'', JNum 1010)]),
           (''clouds'', JObj [(''all'', JNum 40)]),
           (''wind'', JObj [(''speed'', JNum 3)]),
           (''weather'', JArr [JObj [(''main'', JStr label), (''icon'', JStr ''01d'')]])]"

definition forecast_of :: "json list \<Rightarrow> json" where
  "forecast_of entries = JObj [(''cod'', JStr ''200''), (''list'', JArr entries)]"

text \<open>Tomorrow with three readings; tomorrow with a tie of two labels.\<close>

definition three_readings :: json where
  "three_readings =
     forecast_of [entry 86400 10 50 ''Rain'', entry 97200 12 51 ''Rain'',
                  entry 108000 15 51 ''Clear'']"

definition tied_labels :: json where
  "tied_labels = forecast_of [entry 86400 10 50 ''Rain'', entry 97200 12 51 ''Clear'']"


text \<open>One reading on each of the days 1, 2 and 4: day 3 has none.\<close>

definition day_three_missing :: json where
  "day_three_missing =
     forecast_of [entry 86400 10 50 ''Rain'', entry 172800 11 60 ''Clouds'',
                  entry 345600 9 70 ''Clear'']"

text \<open>Current-weather payloads: a complete one and one without \<open>wind\<close>.\<close>

definition current_complete :: json where
  "current_complete =
     JObj [(''name'', JStr ''Pune''), (''sys'', JObj [(''country'', JStr ''IN'')]),
           (''main'', JObj [(''temp'', JNum 20), (''humidity'', JNum 50),
                            (''feels_like'', JNum 19), (''pressure'', JNum 1010)]),
           (''wind'', JObj [(''speed'', JNum 3)]),
           (''weather'', JArr [JObj [(''description'', JStr ''light rain'')]])]"



definition cli_with :: "json \<Rightarrow> cli_services" where
  "cli_with data =
     \<lparr>cli_geocoder_ip = Inr \<lparr>g_ok = True, g_city = Some ''Pune'', g_country = Some ''IN'',
                              g_latlng = Some (37 / 2, 74)\<rparr>,
      cli_API_KEY = Some ''key'',
      weather_response = (\<lambda>la lo. Inr data)\<rparr>"

text \<open>What the aggregation returns for \<open>three_readings\<close> in \<open>utc_env\<close>.\<close>

definition three_readings_summary :: daily_summary where
  "three_readings_summary =
     \<lparr>date = 1, day = ''Friday'', min_temp = 10, max_temp = 15, avg_temp = 123 / 10,
      humidity = 50, cloud_cover = 40, wind_speed = 3, condition = JStr ''Rain'',
      icon = JStr ''01d'', rain_probability = 50, will_rain = False\<rparr>"

text \<open>What the aggregation returns for \<open>day_three_missing\<close> in \<open>utc_env\<close>.\<close>

definition day_three_missing_summaries :: "daily_summary list" where
  "day_three_missing_summaries =
     [\<lparr>date = 1, day = ''Friday'', min_temp = 10, max_temp = 10, avg_temp = 10,
       humidity = 50, cloud_cover = 40, wind_speed = 3, condition = JStr ''Rain'',
       icon = JStr ''01d'', rain_probability = 50, will_rain = False\<rparr>,
      \<lparr>date = 2, day = ''Saturday'', min_temp = 11, max_temp = 11, avg_temp = 11,
       humidity = 60, cloud_cover = 40, wind_speed = 3, condition = JStr ''Clouds'',
       icon = JStr ''01d'', rain_probability = 50, will_rain = False\<rparr>,
      \<lparr>date = 4, day = ''Monday'', min_temp = 9, max_temp = 9, avg_temp = 9,
       humidity = 70, cloud_cover = 40, wind_speed = 3, condition = JStr ''Clear'',
       icon = JStr ''01d'', rain_probability = 50, will_rain = False\<rparr>]"

text \<open>What it returns for \<open>tied_labels\<close> in \<open>utc_env_rev\<close>.\<close>

definition tied_labels_summary :: daily_summary where
  "tied_labels_summary =
     \<lparr>date = 1, day = ''Friday'', min_temp = 10, max_temp = 12, avg_temp = 11,
      humidity = 50, cloud_cover = 40, wind_speed = 3, condition = JStr ''Clear'',
      icon = JStr ''01d'', rain_probability = 50, will_rain = False\<rparr>"

section \<open>Properties\<close>

subsection \<open>The forecast endpoint\<close>

text \<open>
  C3. The claim: a location that cannot be resolved gives status 400, also when explicit
  \<open>lat\<close> and \<open>lng\<close> were supplied and reverse geocoding fails, and 500 is returned only for
  a missing credential or a failed fetch. The code at that input: with both coordinates
  in the query, a failing reverse geocoding (here the call raises) and a credential
  configured, \<open>location\<close> is \<open>None\<close>, \<open>location["lat"]\<close> raises TypeError and the
  handler of \<open>get_forecast\<close> answers 500 with the text of the exception.
\<close>

theorem get_forecast_reverse_geocoding_failure_is_500:
  "get_forecast
     \<lparr>geocoder_ip = ip, geocoder_reverse = (\<lambda>la lo. Inl ValueError),
      API_KEY = Some ''key'', forecast_response = fr\<rparr>
     E (Some (103 / 2)) (Some (- 3 / 25))
   = (500, Caught TypeError)"
  by (simp add: get_forecast_def find_location_def get_location_from_coordinates_def)

subsection \<open>The feels-like estimator\<close>

lemma squared_error_nonneg: "0 \<le> squared_error a b c"
  unfolding squared_error_def by (rule sum_list_nonneg) auto

lemma squared_error_of_fit: "squared_error (3 / 100) (9 / 10) 0 = 0"
  by (simp add: squared_error_def training_humidity_def training_temp_def
      training_feels_like_def)

lemma train_prediction_model_value:
  "train_prediction_model =
     Some \<lparr>coef_humidity = 3 / 100, coef_temperature = 9 / 10, intercept = 0\<rparr>"
  by (simp add: train_prediction_model_def least_squares_fit_def training_humidity_def
      training_temp_def training_feels_like_def centred_def mean_def dot_def Let_def)

text \<open>
  C9. The estimator is fitted on 14 fixed samples whose targets are
  \<open>0.9 * temperature + 0.03 * humidity\<close>; the fit exists and no line has a smaller sum of
  squared residuals on the samples; its prediction for any numeric pair (humidity,
  temperature) is \<open>0.9 * temperature + 0.03 * humidity\<close> rounded to two decimals, under
  exact arithmetic.
\<close>

theorem predict_feels_like_closed_form:
  "length training_humidity = 14 \<and> length training_temp = 14
   \<and> training_feels_like =
       map (\<lambda>(t, h). 9 / 10 * t + 3 / 100 * h) (zip training_temp training_humidity)
   \<and> (\<exists>model. train_prediction_model = Some model
        \<and> (\<forall>a b c. squared_error (coef_humidity model) (coef_temperature model)
                      (intercept model) \<le> squared_error a b c)
        \<and> (\<forall>h t. predict_feels_like model (JNum h) (JNum t)
                    = Inr (py_round (9 / 10 * t + 3 / 100 * h) 2)))"
proof -
  have lens: "length training_humidity = 14 \<and> length training_temp = 14"
    by (simp add: training_humidity_def training_temp_def)
  have targets: "training_feels_like =
      map (\<lambda>(t, h). 9 / 10 * t + 3 / 100 * h) (zip training_temp training_humidity)"
    by (auto simp: training_feels_like_def)
  let ?m = "\<lparr>coef_humidity = 3 / 100, coef_temperature = 9 / 10, intercept = 0 :: rat\<rparr>"
  have best: "\<forall>a b c. squared_error (coef_humidity ?m) (coef_temperature ?m) (intercept ?m)
                 \<le> squared_error a b c"
    by (simp add: squared_error_of_fit squared_error_nonneg)
  have pred: "\<forall>h t. predict_feels_like ?m (JNum h) (JNum t)
                 = Inr (py_round (9 / 10 * t + 3 / 100 * h) 2)"
    by (simp add: predict_feels_like_def add.commute)
  from train_prediction_model_value best pred have
    "\<exists>model. train_prediction_model = Some model
        \<and> (\<forall>a b c. squared_error (coef_humidity model) (coef_temperature model)
                      (intercept model) \<le> squared_error a b c)
        \<and> (\<forall>h t. predict_feels_like model (JNum h) (JNum t)
                    = Inr (py_round (9 / 10 * t + 3 / 100 * h) 2))"
    by blast
  with lens targets show ?thesis by blast
qed

subsection \<open>Grouping and the loop over the four days\<close>

lemma and_then_simps [simp]: "and_then (Inl e) f = Inl e" "and_then (Inr x) f = f x"
  by (simp_all add: and_then_def)

lemma group_by_date_read_all:
  "group_by_date E df items =
     (case read_all E items of Inl e \<Rightarrow> Inl e | Inr rs \<Rightarrow> Inr (foldl append_reading df rs))"
  by (induction items arbitrary: df) (auto split: sum.splits)

lemma bucket_of_snoc:
  "bucket_of d (rs @ [r]) = (bucket_of d rs)\<lparr>temps := temps (bucket_of d rs) @ [r_temp r],
             humidities := humidities (bucket_of d rs) @ [r_humidity r],
             b_cloud_cover := b_cloud_cover (bucket_of d rs) @ [r_clouds r],
             pressures := pressures (bucket_of d rs) @ [r_pressure r],
             wind_speeds := wind_speeds (bucket_of d rs) @ [r_wind r],
             descriptions := descriptions (bucket_of d rs) @ [r_description r],
             icons := icons (bucket_of d rs) @ [r_icon r]\<rparr>"
  by (simp add: bucket_of_def)

lemma bucket_of_Nil: "bucket_of d [] = new_bucket d"
  by (simp add: bucket_of_def new_bucket_def)

lemma foldl_append_reading:
  "foldl append_reading Map.empty rs d =
     (if filter (\<lambda>r. r_date r = d) rs = [] then None
      else Some (bucket_of d (filter (\<lambda>r. r_date r = d) rs)))"
proof (induction rs rule: rev_induct)
  case Nil
  then show ?case by simp
next
  case (snoc r rs)
  show ?case
  proof (cases "r_date r = d")
    case True
    then show ?thesis
      using snoc by (simp add: append_reading_def Let_def bucket_of_snoc bucket_of_Nil)
  next
    case False
    then show ?thesis
      using snoc by (simp add: append_reading_def Let_def)
  qed
qed

lemma summaries_dates:
  "summaries E df is = Inr res \<Longrightarrow>
     map date res = filter (\<lambda>d. df d \<noteq> None) (map (\<lambda>i. today E + i) is)"
proof (induction "is" arbitrary: res)
  case Nil
  then show ?case by simp
next
  case (Cons i "is")
  then show ?case
    by (auto simp: Let_def summarise_def and_then_def split: option.splits sum.splits)
qed


lemma summaries_member:
  "summaries E df is = Inr res \<Longrightarrow> s \<in> set res \<Longrightarrow>
     \<exists>data. df (date s) = Some data \<and> summarise E (date s) data = Inr s"
proof (induction "is" arbitrary: res)
  case Nil
  then show ?case by simp
next
  case (Cons i "is")
  show ?case
  proof (cases "df (today E + i)")
    case None
    with Cons show ?thesis by (simp add: Let_def)
  next
    case (Some data)
    with Cons.prems obtain s0 rest where
      s0: "summarise E (today E + i) data = Inr s0" and
      rest: "summaries E df is = Inr rest" and res: "res = s0 # rest"
      by (auto simp: Let_def and_then_def split: sum.splits)
    have d0: "date s0 = today E + i"
      using s0 by (auto simp: summarise_def and_then_def Let_def split: sum.splits)
    show ?thesis
    proof (cases "s = s0")
      case True
      with s0 d0 Some show ?thesis by simp
    next
      case False
      with Cons.prems res have "s \<in> set rest" by simp
      with Cons.IH rest show ?thesis by blast
    qed
  qed
qed

lemma process_forecast_data_alt:
  "process_forecast_data E p =
     and_then (payload_items p) (\<lambda>items.
     and_then (group_by_date E Map.empty items) (\<lambda>df. summaries E df [1, 2, 3, 4]))"
  by (auto simp: process_forecast_data_def payload_items_def and_then_def Let_def
      split: sum.splits)

lemma process_reads:
  assumes "process_forecast_data E p = Inr res"
  shows "\<exists>items. payload_items p = Inr items \<and> read_all E items = Inr (readings_of E p)
           \<and> summaries E (foldl append_reading Map.empty (readings_of E p)) [1, 2, 3, 4] = Inr res"
  using assms
  by (auto simp: process_forecast_data_alt group_by_date_read_all readings_of_def and_then_def
      split: sum.splits)

lemma process_dates:
  assumes "process_forecast_data E p = Inr res"
  shows "map date res =
           filter (\<lambda>d. day_readings E p d \<noteq> [])
             [today E + 1, today E + 2, today E + 3, today E + 4]"
proof -
  from process_reads [OF assms] have
    "summaries E (foldl append_reading Map.empty (readings_of E p)) [1, 2, 3, 4] = Inr res"
    by blast
  from summaries_dates [OF this] show ?thesis
    by (simp add: foldl_append_reading day_readings_def)
qed

lemma process_member:
  assumes "process_forecast_data E p = Inr res" and "s \<in> set res"
  shows "day_readings E p (date s) \<noteq> []
         \<and> summarise E (date s) (bucket_of (date s) (day_readings E p (date s))) = Inr s"
proof -
  from process_reads [OF assms(1)] have
    "summaries E (foldl append_reading Map.empty (readings_of E p)) [1, 2, 3, 4] = Inr res"
    by blast
  from summaries_member [OF this assms(2)] show ?thesis
    by (auto simp: foldl_append_reading day_readings_def split: if_splits)
qed

subsection \<open>Rounding is monotone; the mean lies between the extremes\<close>

lemma round_half_even_bounds: "of_int (round_half_even x) \<le> x + 1 / 2 \<and> x - 1 / 2 \<le> of_int (round_half_even x)"
  unfolding round_half_even_def Let_def by (auto; linarith)

lemma round_half_even_mono:
  assumes "x \<le> y" shows "round_half_even x \<le> round_half_even y"
proof -
  have fl: "\<lfloor>x\<rfloor> \<le> \<lfloor>y\<rfloor>" using assms by (rule floor_mono)
  show ?thesis
  proof (cases "\<lfloor>x\<rfloor> = \<lfloor>y\<rfloor>")
    case True
    with assms show ?thesis
      unfolding round_half_even_def Let_def by auto
  next
    case False
    with fl have lt: "\<lfloor>x\<rfloor> + 1 \<le> \<lfloor>y\<rfloor>" by simp
    have a: "round_half_even x \<le> \<lfloor>x\<rfloor> + 1"
      unfolding round_half_even_def Let_def by auto
    have b: "\<lfloor>y\<rfloor> \<le> round_half_even y"
      unfolding round_half_even_def Let_def by auto
    from a lt b show ?thesis by linarith
  qed
qed

lemma round_half_even_of_int [simp]: "round_half_even (of_int k) = k"
  unfolding round_half_even_def Let_def by simp

lemma py_round_mono: "x \<le> y \<Longrightarrow> py_round x n \<le> py_round y n"
  unfolding py_round_def
  by (intro divide_right_mono iffD2 [OF of_int_le_iff] round_half_even_mono mult_right_mono) simp_all

lemma fold_min_le: "fold min rs (r :: rat) \<le> r \<and> (\<forall>x\<in>set rs. fold min rs r \<le> x)"
proof (induction rs arbitrary: r)
  case Nil then show ?case by simp
next
  case (Cons a rs)
  have "fold min rs (min a r) \<le> min a r" using Cons by blast
  then show ?case using Cons [of "min a r"] by auto
qed

lemma fold_max_ge: "r \<le> fold max rs (r :: rat) \<and> (\<forall>x\<in>set rs. x \<le> fold max rs r)"
proof (induction rs arbitrary: r)
  case Nil then show ?case by simp
next
  case (Cons a rs)
  have "max a r \<le> fold max rs (max a r)" using Cons by blast
  then show ?case using Cons [of "max a r"] by auto
qed





subsection \<open>Evaluation at concrete inputs\<close>

lemma floor_rat_divide_numeral [simp]:
  "\<lfloor>numeral a / numeral b :: rat\<rfloor> = numeral a div numeral b"
  by (metis floor_divide_of_int_eq of_int_numeral)

lemma floor_rat_minus_divide_numeral [simp]:
  "\<lfloor>- (numeral a / numeral b) :: rat\<rfloor> = - numeral a div numeral b"
  by (metis divide_minus_left floor_divide_of_int_eq of_int_neg_numeral of_int_numeral)

lemmas eval_defs = process_forecast_data_def forecast_of_def entry_def utc_env_def
  utc_env_rev_def read_item_def summarise_def append_reading_def new_bucket_def np_mean_def
  round_min_def round_max_def py_round_def round_half_even_def most_common_def
  set_iteration_def py_max_key_def predict_rain_probability_def weekday_name_def py_int_def
  Let_def

lemma process_three_readings:
  "process_forecast_data utc_env three_readings = Inr [three_readings_summary]"
  by (simp add: eval_defs three_readings_def three_readings_summary_def)

lemma readings_of_three_readings:
  "readings_of utc_env three_readings =
     [\<lparr>r_date = 1, r_temp = JNum 10, r_humidity = JNum 50, r_clouds = JNum 40,
       r_pressure = JNum 1010, r_wind = JNum 3, r_description = JStr ''Rain'',
       r_icon = JStr ''01d''\<rparr>,
      \<lparr>r_date = 1, r_temp = JNum 12, r_humidity = JNum 51, r_clouds = JNum 40,
       r_pressure = JNum 1010, r_wind = JNum 3, r_description = JStr ''Rain'',
       r_icon = JStr ''01d''\<rparr>,
      \<lparr>r_date = 1, r_temp = JNum 15, r_humidity = JNum 51, r_clouds = JNum 40,
       r_pressure = JNum 1010, r_wind = JNum 3, r_description = JStr ''Clear'',
       r_icon = JStr ''01d''\<rparr>]"
  by (simp add: readings_of_def payload_items_def three_readings_def forecast_of_def entry_def
      utc_env_def read_item_def)

lemma day_readings_three_readings:
  "day_readings utc_env three_readings 1 = readings_of utc_env three_readings"
  by (simp add: day_readings_def readings_of_three_readings)

lemma process_day_three_missing:
  "process_forecast_data utc_env day_three_missing = Inr day_three_missing_summaries"
  by (simp add: eval_defs day_three_missing_def day_three_missing_summaries_def)

lemma process_tied_labels:
  "process_forecast_data utc_env_rev tied_labels = Inr [tied_labels_summary]"
  by (simp add: eval_defs tied_labels_def tied_labels_summary_def)

lemma day_values_tied_labels:
  "day_values utc_env_rev tied_labels 1 r_description = [JStr ''Rain'', JStr ''Clear'']"
  by (simp add: day_values_def day_readings_def readings_of_def payload_items_def
      tied_labels_def forecast_of_def entry_def utc_env_rev_def utc_env_def read_item_def)

subsection \<open>What a summary holds\<close>


lemma summarise_fields:
  assumes "summarise E d data = Inr s"
  shows "\<exists>ah ac ap aw mn mx av cond ic.
    np_mean (humidities data) = Inr ah \<and> np_mean (b_cloud_cover data) = Inr ac
    \<and> np_mean (pressures data) = Inr ap \<and> np_mean (wind_speeds data) = Inr aw
    \<and> round_min (temps data) 1 = Inr mn \<and> round_max (temps data) 1 = Inr mx
    \<and> np_mean (temps data) = Inr av
    \<and> most_common (set_order E) (descriptions data) = Inr cond
    \<and> getitem0 (JArr (icons data)) = Inr ic
    \<and> date s = d \<and> day s = weekday_name d \<and> min_temp s = mn \<and> max_temp s = mx
    \<and> avg_temp s = py_round av 1 \<and> humidity s = py_int ah \<and> cloud_cover s = py_int ac
    \<and> wind_speed s = py_round aw 1 \<and> condition s = cond \<and> icon s = ic
    \<and> rain_probability s = predict_rain_probability (rain_model E) ah ac ap aw
    \<and> will_rain s = (50 < rain_probability s)"
  using assms unfolding summarise_def Let_def and_then_def
  by (auto split: sum.splits)




lemma bucket_of_fields [simp]:
  "temps (bucket_of d rs) = map r_temp rs" "humidities (bucket_of d rs) = map r_humidity rs"
  "b_cloud_cover (bucket_of d rs) = map r_clouds rs" "pressures (bucket_of d rs) = map r_pressure rs"
  "wind_speeds (bucket_of d rs) = map r_wind rs" "descriptions (bucket_of d rs) = map r_description rs"
  "icons (bucket_of d rs) = map r_icon rs"
  by (simp_all add: bucket_of_def)

lemma max_by_split:
  "\<exists>pre post. b # xs = pre @ max_by k b xs # post
     \<and> (\<forall>x\<in>set pre. k x < k (max_by k b xs))
     \<and> (\<forall>x\<in>set post. k x \<le> k (max_by k b xs))"
proof (induction xs arbitrary: b)
  case Nil
  have "[b] = [] @ max_by k b [] # []" by simp
  then show ?case by (metis empty_iff empty_set)
next
  case (Cons x xs)
  define b' where "b' = (if k b < k x then x else b)"
  define m where "m = max_by k b' xs"
  from Cons [of b'] obtain pre post where
    split: "b' # xs = pre @ m # post" and
    before: "\<forall>y\<in>set pre. k y < k m" and after: "\<forall>y\<in>set post. k y \<le> k m"
    unfolding m_def by blast
  have head: "k b' \<le> k m"
  proof (cases pre)
    case Nil
    with split show ?thesis by simp
  next
    case (Cons p ps)
    with split have "b' \<in> set pre" by simp
    with before show ?thesis by (simp add: less_imp_le)
  qed
  have m: "max_by k b (x # xs) = m" by (simp add: m_def b'_def)
  show ?case
  proof (cases "k b < k x")
    case True
    then have b': "b' = x" by (simp add: b'_def)
    from split b' have "b # x # xs = (b # pre) @ m # post" by simp
    moreover from True head b' before have "\<forall>y\<in>set (b # pre). k y < k m" by auto
    ultimately show ?thesis unfolding m using after by blast
  next
    case False
    then have b': "b' = b" by (simp add: b'_def)
    show ?thesis
    proof (cases pre)
      case Nil
      with split b' have bm: "b = m" and xs: "xs = post" by simp_all
      have "b # x # xs = [] @ m # (x # post)" using bm xs by simp
      moreover from bm False after have "\<forall>y\<in>set (x # post). k y \<le> k m" by auto
      ultimately show ?thesis unfolding m by (metis empty_iff empty_set)
    next
      case (Cons p ps)
      with split b' have bp: "b = p" and xs: "xs = ps @ m # post" by simp_all
      have "b # x # xs = (b # x # ps) @ m # post" using xs by simp
      moreover from Cons bp before False have "\<forall>y\<in>set (b # x # ps). k y < k m" by auto
      ultimately show ?thesis unfolding m using after by blast
    qed
  qed
qed

lemma most_common_Inr:
  assumes "most_common order vs = Inr c"
  shows "\<exists>pre post. order vs = pre @ c # post
           \<and> (\<forall>x\<in>set pre. count_list vs x < count_list vs c)
           \<and> (\<forall>x\<in>set post. count_list vs x \<le> count_list vs c)"
proof -
  from assms obtain x xs where o: "order vs = x # xs" and c: "c = max_by (count_list vs) x xs"
    by (auto simp: most_common_def set_iteration_def py_max_key_def and_then_def
        split: if_splits list.splits)
  from max_by_split [of x xs "count_list vs"] show ?thesis unfolding o c by blast
qed

subsection \<open>The claims on the daily summaries\<close>

text \<open>
  C1, the claim as stated: the condition label is the most frequent description of the
  day and, among descriptions tied for the largest count, the one first encountered in
  reading order. At the readings "Rain", "Clear" of one day (a tie) and a set that
  iterates "Clear" before "Rain", which lists the distinct descriptions as every set
  does, the label is "Clear", the second one in reading order.
\<close>

theorem condition_tie_not_first_encountered:
  "process_forecast_data utc_env_rev tied_labels = Inr [tied_labels_summary]
   \<and> day_values utc_env_rev tied_labels 1 r_description = [JStr ''Rain'', JStr ''Clear'']
   \<and> lists_the_set (set_order utc_env_rev) [JStr ''Rain'', JStr ''Clear'']
   \<and> condition tied_labels_summary = JStr ''Clear''"
proof -
  have "lists_the_set (set_order utc_env_rev) [JStr ''Rain'', JStr ''Clear'']"
    by (auto simp: lists_the_set_def utc_env_rev_def utc_env_def)
  moreover have "condition tied_labels_summary = JStr ''Clear''"
    by (simp add: tied_labels_summary_def)
  ultimately show ?thesis
    using process_tied_labels day_values_tied_labels by blast
qed

text \<open>
  C1, amended: for every emitted summary, whatever order the set of the day's
  descriptions is iterated in, the condition label is one of the day's descriptions, no
  description of the day is more frequent, and every description that the set iterates
  before it is strictly less frequent: among tied descriptions the label is the first in
  the iteration order of the set, not in reading order.
\<close>


theorem condition_is_a_most_frequent_description:
  assumes "process_forecast_data E p = Inr res" and "s \<in> set res"
    and "lists_the_set (set_order E) (day_values E p (date s) r_description)"
  shows "condition s \<in> set (day_values E p (date s) r_description)
     \<and> (\<forall>x\<in>set (day_values E p (date s) r_description).
           count_list (day_values E p (date s) r_description) x
             \<le> count_list (day_values E p (date s) r_description) (condition s))
     \<and> (\<exists>pre post. set_order E (day_values E p (date s) r_description) = pre @ condition s # post
           \<and> (\<forall>x\<in>set pre. count_list (day_values E p (date s) r_description) x
                 < count_list (day_values E p (date s) r_description) (condition s)))"
proof -
  let ?ds = "day_values E p (date s) r_description"
  from process_member [OF assms(1,2)] have
    sm: "summarise E (date s) (bucket_of (date s) (day_readings E p (date s))) = Inr s"
    by blast
  from summarise_fields [OF sm] have "most_common (set_order E) ?ds = Inr (condition s)"
    by (auto simp: day_values_def)
  from most_common_Inr [OF this] obtain pre post where
    o: "set_order E ?ds = pre @ condition s # post" and
    before: "\<forall>x\<in>set pre. count_list ?ds x < count_list ?ds (condition s)" and
    after: "\<forall>x\<in>set post. count_list ?ds x \<le> count_list ?ds (condition s)"
    by blast
  from assms(3) have sets: "set (set_order E ?ds) = set ?ds"
    by (simp add: lists_the_set_def)
  have mem: "condition s \<in> set ?ds" using sets o by auto
  have most: "\<forall>x\<in>set ?ds. count_list ?ds x \<le> count_list ?ds (condition s)"
  proof
    fix x assume "x \<in> set ?ds"
    with sets o have "x \<in> set pre \<or> x = condition s \<or> x \<in> set post" by auto
    with before after show "count_list ?ds x \<le> count_list ?ds (condition s)"
      by (auto simp: less_imp_le)
  qed
  from mem most o before show ?thesis by blast
qed

theorem condition_is_a_most_frequent_description_witness:
  "process_forecast_data utc_env three_readings = Inr [three_readings_summary]
   \<and> three_readings_summary \<in> set [three_readings_summary]
   \<and> lists_the_set (set_order utc_env)
        (day_values utc_env three_readings (date three_readings_summary) r_description)
   \<and> day_values utc_env three_readings (date three_readings_summary) r_description
        = [JStr ''Rain'', JStr ''Rain'', JStr ''Clear'']
   \<and> condition three_readings_summary = JStr ''Rain''
   \<and> condition three_readings_summary
        \<in> set (day_values utc_env three_readings (date three_readings_summary) r_description)"
proof -
  have d: "date three_readings_summary = 1"
    by (simp add: three_readings_summary_def)
  have vals: "day_values utc_env three_readings (date three_readings_summary) r_description
      = [JStr ''Rain'', JStr ''Rain'', JStr ''Clear'']"
    by (simp add: d day_values_def day_readings_three_readings readings_of_three_readings)
  have h1: "process_forecast_data utc_env three_readings = Inr [three_readings_summary]"
    by (rule process_three_readings)
  have h2: "three_readings_summary \<in> set [three_readings_summary]" by simp
  have h3: "lists_the_set (set_order utc_env)
      (day_values utc_env three_readings (date three_readings_summary) r_description)"
    unfolding vals by (simp add: lists_the_set_def utc_env_def)
  have c: "condition three_readings_summary = JStr ''Rain''"
    by (simp add: three_readings_summary_def)
  from condition_is_a_most_frequent_description [OF h1 h2 h3] h1 h2 h3 vals c
  show ?thesis by blast
qed




text \<open>
  C5. Whenever the aggregation returns, its output lists exactly the dates among
  today+1, ..., today+4 that have at least one reading, in that order: they are
  ascending, each appears once, a date without readings is left out, and there are four
  entries exactly when all four days have readings.
\<close>


theorem one_summary_per_covered_day:
  assumes "process_forecast_data E p = Inr res"
  shows "map date res =
           filter (\<lambda>d. day_readings E p d \<noteq> [])
             [today E + 1, today E + 2, today E + 3, today E + 4]
         \<and> sorted_wrt (<) (map date res)
         \<and> length res \<le> 4
         \<and> (length res = 4 \<longleftrightarrow>
              day_readings E p (today E + 1) \<noteq> [] \<and> day_readings E p (today E + 2) \<noteq> []
              \<and> day_readings E p (today E + 3) \<noteq> [] \<and> day_readings E p (today E + 4) \<noteq> [])"
proof -
  let ?P = "\<lambda>d. day_readings E p d \<noteq> []"
  let ?days = "[today E + 1, today E + 2, today E + 3, today E + 4]"
  have dates: "map date res = filter ?P ?days"
    by (rule process_dates [OF assms])
  have "sorted_wrt (<) ?days" by simp
  then have sorted: "sorted_wrt (<) (filter ?P ?days)" by (rule sorted_wrt_filter)
  have len: "length res = length (filter ?P ?days)"
    using dates by (metis length_map)
  have le: "length (filter ?P ?days) \<le> 4"
    using length_filter_le [of ?P ?days] by simp
  have all: "length (filter ?P ?days) = 4 \<longleftrightarrow>
      ?P (today E + 1) \<and> ?P (today E + 2) \<and> ?P (today E + 3) \<and> ?P (today E + 4)"
    by simp
  from dates sorted len le all show ?thesis by simp
qed

theorem one_summary_per_covered_day_witness:
  "process_forecast_data utc_env day_three_missing = Inr day_three_missing_summaries
   \<and> map date day_three_missing_summaries = [1, 2, 4]
   \<and> map date day_three_missing_summaries =
        filter (\<lambda>d. day_readings utc_env day_three_missing d \<noteq> [])
          [today utc_env + 1, today utc_env + 2, today utc_env + 3, today utc_env + 4]
   \<and> length day_three_missing_summaries \<le> 4"
proof -
  have h: "process_forecast_data utc_env day_three_missing = Inr day_three_missing_summaries"
    by (rule process_day_three_missing)
  have "map date day_three_missing_summaries = [1, 2, 4]"
    by (simp add: day_three_missing_summaries_def)
  with one_summary_per_covered_day [OF h] h show ?thesis by blast
qed

text \<open>
  C6. For every classifier input on which the fitted model gives a probability between
  0 and 1, \<open>predict_rain_probability\<close> lies between 0 and 100; and in every emitted
  summary \<open>will_rain\<close> holds exactly when \<open>rain_probability\<close> is greater than 50 (so it is
  false at 50), with \<open>rain_probability\<close> between 0 and 100 when the model gives
  probabilities.
\<close>


theorem rain_probability_range_and_flag:
  "(0 \<le> model h c pr w \<and> model h c pr w \<le> 1 \<longrightarrow>
      0 \<le> predict_rain_probability model h c pr w
      \<and> predict_rain_probability model h c pr w \<le> 100)
   \<and> (process_forecast_data E p = Inr res \<and> s \<in> set res \<longrightarrow>
        (will_rain s \<longleftrightarrow> 50 < rain_probability s)
        \<and> ((\<forall>h c pr w. 0 \<le> rain_model E h c pr w \<and> rain_model E h c pr w \<le> 1) \<longrightarrow>
             0 \<le> rain_probability s \<and> rain_probability s \<le> 100))"
proof -
  have range: "0 \<le> predict_rain_probability m a b c d \<and> predict_rain_probability m a b c d \<le> 100"
    if "0 \<le> m a b c d" and "m a b c d \<le> 1" for m :: "rat \<Rightarrow> rat \<Rightarrow> rat \<Rightarrow> rat \<Rightarrow> rat" and a b c d
  proof -
    have lo: "py_round 0 1 \<le> py_round (m a b c d * 100) 1"
      using that by (intro py_round_mono) simp
    have hi: "py_round (m a b c d * 100) 1 \<le> py_round 100 1"
      using that by (intro py_round_mono) simp
    have "py_round 0 1 = 0" "py_round 100 1 = 100"
      by (simp_all add: py_round_def round_half_even_def)
    with lo hi show ?thesis by (simp add: predict_rain_probability_def Let_def)
  qed
  have emitted: "(will_rain s \<longleftrightarrow> 50 < rain_probability s)
        \<and> ((\<forall>h c pr w. 0 \<le> rain_model E h c pr w \<and> rain_model E h c pr w \<le> 1) \<longrightarrow>
             0 \<le> rain_probability s \<and> rain_probability s \<le> 100)"
    if "process_forecast_data E p = Inr res" and "s \<in> set res"
  proof -
    from process_member [OF that] have
      sm: "summarise E (date s) (bucket_of (date s) (day_readings E p (date s))) = Inr s"
      by blast
    from summarise_fields [OF sm] obtain ah ac ap aw where
      rp: "rain_probability s = predict_rain_probability (rain_model E) ah ac ap aw" and
      wr: "will_rain s = (50 < rain_probability s)"
      by auto
    from rp wr range [of "rain_model E" ah ac ap aw] show ?thesis by auto
  qed
  from range [of model h c pr w] emitted show ?thesis by blast
qed

theorem rain_probability_range_and_flag_witness:
  "(0 \<le> (\<lambda>h c pr w. 1 / 2 :: rat) 50 40 1010 3 \<and> (\<lambda>h c pr w. 1 / 2 :: rat) 50 40 1010 3 \<le> 1)
   \<and> predict_rain_probability (\<lambda>h c pr w. 1 / 2) 50 40 1010 3 \<le> 100
   \<and> process_forecast_data utc_env three_readings = Inr [three_readings_summary]
   \<and> three_readings_summary \<in> set [three_readings_summary]
   \<and> (\<forall>h c pr w. 0 \<le> rain_model utc_env h c pr w \<and> rain_model utc_env h c pr w \<le> 1)
   \<and> rain_probability three_readings_summary = 50
   \<and> \<not> will_rain three_readings_summary
   \<and> (will_rain three_readings_summary \<longleftrightarrow> 50 < rain_probability three_readings_summary)
   \<and> rain_probability three_readings_summary \<le> 100"
proof -
  have h0: "0 \<le> (\<lambda>h c pr w. 1 / 2 :: rat) 50 40 1010 3
      \<and> (\<lambda>h c pr w. 1 / 2 :: rat) 50 40 1010 3 \<le> 1"
    by simp
  have h1: "process_forecast_data utc_env three_readings = Inr [three_readings_summary]"
    by (rule process_three_readings)
  have h2: "three_readings_summary \<in> set [three_readings_summary]" by simp
  have h3: "\<forall>h c pr w. 0 \<le> rain_model utc_env h c pr w \<and> rain_model utc_env h c pr w \<le> 1"
    by (simp add: utc_env_def)
  have v: "rain_probability three_readings_summary = 50" "\<not> will_rain three_readings_summary"
    by (simp_all add: three_readings_summary_def)
  from rain_probability_range_and_flag
    [of "\<lambda>h c pr w. 1 / 2" 50 40 1010 3 utc_env three_readings "[three_readings_summary]"
        three_readings_summary]
    h0 h1 h2 h3 v
  show ?thesis by blast
qed

lemma to_double_examples:
  "to_double (15 / 100) = 5404319552844595 / 2 ^ 55"
  "to_double (1 / 10) = 3602879701896397 / 2 ^ 55"
  "to_double (3 / 2) = 3 / 2"
  "to_double (to_double (15 / 100) * 10) = 3 / 2"
  by code_simp+




subsection \<open>Missing and unparseable fields\<close>








lemma main_complete:
  "main (cli_with current_complete) = Inr (Displayed (Report (1/2) ''[UP]''))"
  by (simp add: main_def get_user_location_def fetch_weather_data_def cli_with_def
      current_complete_def extract_weather_info_def extract_fields_def
      train_prediction_model_value predict_feels_like_def display_weather_summary_def
      py_round_def round_half_even_def Let_def is_lower_def is_upper_def to_upper_def to_lower_def)






subsection \<open>The aggregation returns on numeric readings\<close>

text \<open>
  When every entry of the list can be read and every reading is numeric, the aggregation
  returns a list of summaries: the properties above are about a function that does
  return on the payloads the provider sends.
\<close>

lemma numbers_of_all:
  "\<forall>v\<in>set vs. number_of v \<noteq> None \<Longrightarrow> \<exists>ns. numbers_of vs = Some ns \<and> length ns = length vs"
  by (induction vs) auto

lemma np_mean_returns:
  assumes "vs \<noteq> []" and "\<forall>v\<in>set vs. number_of v \<noteq> None"
  shows "\<exists>m. np_mean vs = Inr m"
proof -
  from numbers_of_all [OF assms(2)] obtain ns where
    "numbers_of vs = Some ns" "length ns = length vs" by blast
  with assms(1) show ?thesis by (auto simp: np_mean_def)
qed

lemma round_min_returns:
  assumes "vs \<noteq> []" and "\<forall>v\<in>set vs. number_of v \<noteq> None"
  shows "\<exists>m. round_min vs n = Inr m"
proof -
  from numbers_of_all [OF assms(2)] obtain ns where
    "numbers_of vs = Some ns" "length ns = length vs" by blast
  with assms(1) show ?thesis by (cases ns) (auto simp: round_min_def)
qed

lemma round_max_returns:
  assumes "vs \<noteq> []" and "\<forall>v\<in>set vs. number_of v \<noteq> None"
  shows "\<exists>m. round_max vs n = Inr m"
proof -
  from numbers_of_all [OF assms(2)] obtain ns where
    "numbers_of vs = Some ns" "length ns = length vs" by blast
  with assms(1) show ?thesis by (cases ns) (auto simp: round_max_def)
qed

lemma most_common_returns:
  assumes "vs \<noteq> []" and "\<forall>v\<in>set vs. hashable v" and "lists_the_set order vs"
  shows "\<exists>c. most_common order vs = Inr c"
proof -
  from assms(1,3) have "order vs \<noteq> []"
    by (auto simp: lists_the_set_def)
  then obtain x xs where "order vs = x # xs" by (cases "order vs") auto
  with assms(2) show ?thesis
    by (simp add: most_common_def set_iteration_def py_max_key_def list_all_iff)
qed

lemma summarise_returns:
  assumes "rs \<noteq> []" and "\<forall>r\<in>set rs. numeric_reading r"
    and "lists_the_set (set_order E) (map r_description rs)"
  shows "\<exists>s. summarise E d (bucket_of d rs) = Inr s"
proof -
  from assms(1,2) obtain ah where ah: "np_mean (map r_humidity rs) = Inr ah"
    using np_mean_returns [of "map r_humidity rs"] by (auto simp: numeric_reading_def)
  from assms(1,2) obtain ac where ac: "np_mean (map r_clouds rs) = Inr ac"
    using np_mean_returns [of "map r_clouds rs"] by (auto simp: numeric_reading_def)
  from assms(1,2) obtain ap where ap: "np_mean (map r_pressure rs) = Inr ap"
    using np_mean_returns [of "map r_pressure rs"] by (auto simp: numeric_reading_def)
  from assms(1,2) obtain aw where aw: "np_mean (map r_wind rs) = Inr aw"
    using np_mean_returns [of "map r_wind rs"] by (auto simp: numeric_reading_def)
  from assms(1,2) obtain av where av: "np_mean (map r_temp rs) = Inr av"
    using np_mean_returns [of "map r_temp rs"] by (auto simp: numeric_reading_def)
  from assms(1,2) obtain mn where mn: "round_min (map r_temp rs) (Suc 0) = Inr mn"
    using round_min_returns [of "map r_temp rs" "Suc 0"] by (auto simp: numeric_reading_def)
  from assms(1,2) obtain mx where mx: "round_max (map r_temp rs) (Suc 0) = Inr mx"
    using round_max_returns [of "map r_temp rs" "Suc 0"] by (auto simp: numeric_reading_def)
  from assms obtain c where c: "most_common (set_order E) (map r_description rs) = Inr c"
    using most_common_returns [of "map r_description rs" "set_order E"]
    by (auto simp: numeric_reading_def)
  from assms(1) obtain ic where ic: "getitem0 (JArr (map r_icon rs)) = Inr ic"
    by (cases rs) auto
  show ?thesis
    unfolding summarise_def by (simp add: ah ac ap aw av mn mx c ic Let_def)
qed

lemma summaries_returns:
  assumes "\<forall>i\<in>set is. \<forall>data. df (today E + i) = Some data \<longrightarrow>
             (\<exists>s. summarise E (today E + i) data = Inr s)"
  shows "\<exists>res. summaries E df is = Inr res"
  using assms
proof (induction "is")
  case Nil
  show ?case by simp
next
  case (Cons i "is")
  then obtain rest where rest: "summaries E df is = Inr rest" by auto
  show ?case
  proof (cases "df (today E + i)")
    case None
    with rest show ?thesis by (simp add: Let_def)
  next
    case (Some data)
    with Cons.prems obtain s where "summarise E (today E + i) data = Inr s" by auto
    with Some rest show ?thesis by (simp add: Let_def)
  qed
qed

lemma process_forecast_data_returns:
  assumes "payload_items p = Inr items" and "read_all E items = Inr rs"
    and "\<forall>r\<in>set rs. numeric_reading r"
    and "\<forall>d. lists_the_set (set_order E) (map r_description (filter (\<lambda>r. r_date r = d) rs))"
  shows "\<exists>res. process_forecast_data E p = Inr res"
proof -
  let ?df = "foldl append_reading Map.empty rs"
  have "\<forall>i\<in>set [1, 2, 3, 4]. \<forall>data. ?df (today E + i) = Some data \<longrightarrow>
          (\<exists>s. summarise E (today E + i) data = Inr s)"
  proof (intro ballI allI impI)
    fix i :: int and data
    assume "?df (today E + i) = Some data"
    then have ne: "filter (\<lambda>r. r_date r = today E + i) rs \<noteq> []"
      and data: "data = bucket_of (today E + i) (filter (\<lambda>r. r_date r = today E + i) rs)"
      by (auto simp: foldl_append_reading split: if_splits)
    from assms(3) have "\<forall>r\<in>set (filter (\<lambda>r. r_date r = today E + i) rs). numeric_reading r"
      by simp
    from summarise_returns [OF ne this] assms(4) data
    show "\<exists>s. summarise E (today E + i) data = Inr s" by blast
  qed
  from summaries_returns [OF this] obtain res where
    "summaries E ?df [1, 2, 3, 4] = Inr res" by blast
  with assms(1,2) show ?thesis
    by (simp add: process_forecast_data_alt group_by_date_read_all)
qed

end
